theory Spec2Isabelle
  imports Complex_Main
begin

section \<open>Data model of \<open>app.py\<close>\<close>

text \<open>
  A Python \<open>str\<close> is a sequence of Unicode code points: \<open>len\<close> counts code points and
  a slice cuts between them. The model writes a \<open>str\<close> as the list of its code points;
  \<open>lit\<close> turns an ASCII literal into such a list, and a code point outside ASCII is
  written as its number (233 is e-acute, 232 e-grave, 231 c-cedilla, 224 a-grave; 39 is
  the apostrophe and 10 the line feed).
\<close>

type_synonym str = "nat list"

abbreviation lit :: "string \<Rightarrow> str" where
  "lit s \<equiv> map of_char s"

text \<open>An exception is kept as the text that \<open>str(e)\<close> prints inside an f-string.\<close>

datatype exn = Exception str

fun exn_text :: "exn \<Rightarrow> str" where
  "exn_text (Exception m) = m"

text \<open>
  A row of the table \<open>dialogues(id, dialogue_id, contenu, embedding)\<close>. Floats are
  idealised as reals throughout.
\<close>

record dialogue_row =
  row_id :: int
  dialogue_id :: str
  contenu :: str
  embedding :: "real list"

text \<open>
  A fetched row of the search query: the tuple
  \<open>(id, dialogue_id, contenu, similarity)\<close>; \<open>dialogue[2]\<close> is its third component.
\<close>

type_synonym result_row = "int \<times> str \<times> str \<times> real"

fun result_text :: "result_row \<Rightarrow> str" where
  "result_text (doc_id, dlg_id, text, similarity) = text"

fun result_similarity :: "result_row \<Rightarrow> real" where
  "result_similarity (doc_id, dlg_id, text, similarity) = similarity"

text \<open>
  The cached connection object. \<open>fault = Some e\<close> is a connection on which every
  statement raises \<open>e\<close> (closed, lost, missing table); otherwise statements run over
  the rows of \<open>dialogues\<close>.
\<close>

record connection =
  fault :: "exn option"
  dialogues :: "dialogue_row list"

text \<open>
  An entry of \<open>st.session_state.messages\<close>: a dict with the keys \<open>role\<close> and
  \<open>content\<close>, and for an answer also \<open>sources\<close>. \<open>sources = None\<close> is a dict without
  that key.
\<close>

datatype role = user | assistant

record message =
  role :: role
  content :: str
  sources :: "result_row list option"

text \<open>
  What a run of the script does to the outside, in order: the Streamlit calls that
  show data (titles, labels and spinners are left out), and the requests to the three
  collaborators. \<open>source_header i similarity\<close> is the line
  \<open>**Dialogue {i}** (similarite: {similarity:.2%})\<close>, \<open>source_id\<close> the line
  \<open>*ID: {dialogue_id}*\<close>, \<open>sidebar_success n\<close> the count of dialogues,
  \<open>sidebar_warning\<close> the text of the exception of the count, \<open>sidebar_info\<close> the hint
  shown with it.
\<close>

datatype effect =
    st_error str
  | st_markdown str
  | st_text str
  | st_divider
  | source_header nat real
  | source_id str
  | sidebar_success int
  | sidebar_warning str
  | sidebar_info
  | encode_request str
  | sql_search "real list" int
  | sql_count
  | groq_request str real int

section \<open>The search query\<close>

text \<open>
  The operator \<open><=>\<close> of the vector extension is the cosine distance,
  one minus the cosine of the angle between the two vectors.
\<close>

definition dot :: "real list \<Rightarrow> real list \<Rightarrow> real" where
  "dot a b = sum_list (map2 (*) a b)"

definition l2_norm :: "real list \<Rightarrow> real" where
  "l2_norm a = sqrt (dot a a)"

definition cosine_distance :: "real list \<Rightarrow> real list \<Rightarrow> real" where
  "cosine_distance a b = 1 - dot a b / (l2_norm a * l2_norm b)"

text \<open>
  The column list of the query:
  \<open>SELECT id, dialogue_id, contenu, 1 - (embedding <=> %s::vector) AS similarity\<close>.
\<close>

definition select_row :: "real list \<Rightarrow> dialogue_row \<Rightarrow> result_row" where
  "select_row q r =
     (row_id r, dialogue_id r, contenu r, 1 - cosine_distance (embedding r) q)"

text \<open>
  \<open>cur.execute(...)\<close> followed by \<open>cur.fetchall()\<close>, for
  \<open>FROM dialogues ORDER BY similarity DESC LIMIT %s\<close>. The statement raises on a
  faulty connection, on a negative \<open>LIMIT\<close>, and when a stored vector and the query
  vector differ in dimension. Rows of equal similarity come in table order (SQL leaves
  their order open).
\<close>

definition execute_search :: "connection \<Rightarrow> real list \<Rightarrow> int \<Rightarrow> exn + result_row list" where
  "execute_search conn q k =
     (case fault conn of
        Some e \<Rightarrow> Inl e
      | None \<Rightarrow>
          if list_ex (\<lambda>r. length (embedding r) \<noteq> length q) (dialogues conn)
          then Inl (Exception (lit ''different vector dimensions''))
          else if k < 0
          then Inl (Exception (lit ''LIMIT must not be negative''))
          else Inr (take (nat k)
                 (sort_key (\<lambda>row. - result_similarity row)
                    (map (select_row q) (dialogues conn)))))"

text \<open>\<open>SELECT COUNT(*) FROM dialogues\<close> and \<open>cur.fetchone()[0]\<close>.\<close>

definition execute_count :: "connection \<Rightarrow> exn + int" where
  "execute_count conn =
     (case fault conn of
        Some e \<Rightarrow> Inl e
      | None \<Rightarrow> Inr (int (length (dialogues conn))))"

text \<open>
  The embedding model, as far as the script uses it:
  \<open>model.encode(query, normalize_embeddings=True)\<close> returns a vector or raises.
\<close>

type_synonym embedding_model = "str \<Rightarrow> exn + real list"

text \<open>The body of the \<open>try\<close> block of \<open>search_similar_dialogues\<close>.\<close>

definition search_body ::
  "str \<Rightarrow> embedding_model \<Rightarrow> connection \<Rightarrow> int
     \<Rightarrow> effect list \<times> (exn + result_row list)" where
  "search_body query model conn top_k =
     (case model query of
        Inl e \<Rightarrow> ([encode_request query], Inl e)
      | Inr query_embedding \<Rightarrow>
          ([encode_request query, sql_search query_embedding top_k],
           execute_search conn query_embedding top_k))"

text \<open>
  \<open>search_similar_dialogues\<close>: whatever the body raises is caught by
  \<open>except Exception\<close>, shown with \<open>st.error\<close>, and the function returns \<open>[]\<close>.
\<close>

definition search_error :: "str \<Rightarrow> str" where
  "search_error msg = lit ''Erreur lors de la recherche: '' @ msg"

definition search_similar_dialogues ::
  "str \<Rightarrow> embedding_model \<Rightarrow> connection \<Rightarrow> int \<Rightarrow> effect list \<times> result_row list" where
  "search_similar_dialogues query model conn top_k =
     (case search_body query model conn top_k of
        (es, Inl e) \<Rightarrow>
          (es @ [st_error (search_error (exn_text e))], [])
      | (es, Inr results) \<Rightarrow> (es, results))"

section \<open>Generation\<close>

text \<open>
  The client, as far as the script uses it: \<open>client.chat.completions.create\<close> with the
  prompt, the temperature and the token limit returns a completion, here the
  \<open>message.content\<close> of each of its \<open>choices\<close>, or raises.
\<close>

type_synonym groq_client = "str \<Rightarrow> real \<Rightarrow> int \<Rightarrow> exn + str list"

definition prompt_head :: str where
  "prompt_head =
     lit ''Tu es un assistant intelligent qui r'' @ [233] @
     lit ''pond aux questions en te basant sur des dialogues de conversations t'' @
     [233] @ lit ''l'' @ [233] @ lit ''phoniques.'' @ [10, 10] @
     lit ''Contexte (extraits de dialogues):'' @ [10]"

definition prompt_tail :: str where
  "prompt_tail =
     [10, 10] @ lit ''R'' @ [233] @ lit ''ponds de mani'' @ [232] @
     lit ''re claire et concise en fran'' @ [231] @
     lit ''ais, en t'' @ [39] @
     lit ''appuyant sur les informations contenues dans les dialogues. '' @
     lit ''Si les dialogues ne contiennent pas d'' @ [39] @
     lit ''information pertinente, dis-le clairement.''"

definition build_prompt :: "str \<Rightarrow> str \<Rightarrow> str" where
  "build_prompt question context =
     prompt_head @ context @ [10, 10] @ lit ''Question: '' @ question @ prompt_tail"

text \<open>
  \<open>generate_response\<close>: the request is sent once; \<open>choices[0]\<close> of an empty list raises
  \<open>IndexError\<close> inside the \<open>try\<close>; every exception becomes the returned text.
\<close>

definition generation_error :: "str \<Rightarrow> str" where
  "generation_error msg =
     lit ''Erreur lors de la g'' @ [233] @ lit ''n'' @ [233] @ lit ''ration: '' @ msg"

definition generate_response ::
  "str \<Rightarrow> str \<Rightarrow> groq_client \<Rightarrow> real \<Rightarrow> int \<Rightarrow> effect list \<times> str" where
  "generate_response question context client temperature max_tokens =
     (let prompt = build_prompt question context in
      ([groq_request prompt temperature max_tokens],
       (case client prompt temperature max_tokens of
          Inl e \<Rightarrow> generation_error (exn_text e)
        | Inr [] \<Rightarrow> generation_error (lit ''list index out of range'')
        | Inr (c # cs) \<Rightarrow> c)))"

section \<open>Resources\<close>

text \<open>
  What the script finds around it: the environment after \<open>load_dotenv\<close>, the outcome
  of constructing the embedding model, the outcome of \<open>psycopg.connect\<close> for the five
  connection settings, and the client that \<open>Groq(api_key=...)\<close> builds.
\<close>

record world =
  environ :: "str \<rightharpoonup> str"
  SentenceTransformer :: "exn + embedding_model"
  psycopg_connect :: "str \<Rightarrow> str \<Rightarrow> str \<Rightarrow> str \<Rightarrow> str \<Rightarrow> exn + connection"
  Groq :: "str \<Rightarrow> groq_client"

definition getenv :: "world \<Rightarrow> str \<Rightarrow> str \<Rightarrow> str" where
  "getenv w key dflt = (case environ w key of None \<Rightarrow> dflt | Some v \<Rightarrow> v)"

definition load_embedding_model :: "world \<Rightarrow> exn + embedding_model" where
  "load_embedding_model w = SentenceTransformer w"

definition get_db_connection :: "world \<Rightarrow> effect list \<times> connection option" where
  "get_db_connection w =
     (case psycopg_connect w
             (getenv w (lit ''DB_HOST'') (lit ''localhost''))
             (getenv w (lit ''DB_PORT'') (lit ''5432''))
             (getenv w (lit ''DB_NAME'') (lit ''rag_chatbot''))
             (getenv w (lit ''DB_USER'') (lit ''postgres''))
             (getenv w (lit ''DB_PASSWORD'') [])
      of
        Inl e \<Rightarrow>
          ([st_error (lit ''Erreur de connexion '' @ [224] @ lit '' la base de donn'' @
                      [233] @ lit ''es: '' @ exn_text e)], None)
      | Inr conn \<Rightarrow> ([], Some conn))"

definition key_not_found :: str where
  "key_not_found =
     lit ''GROQ_API_KEY non trouv'' @ [233] @ lit ''e dans le fichier .env''"

text \<open>\<open>if not api_key\<close>: a missing key and an empty one are both refused.\<close>

definition get_groq_client :: "world \<Rightarrow> effect list \<times> groq_client option" where
  "get_groq_client w =
     (case environ w (lit ''GROQ_API_KEY'') of
        None \<Rightarrow> ([st_error key_not_found], None)
      | Some api_key \<Rightarrow>
          if api_key = []
          then ([st_error key_not_found], None)
          else ([], Some (Groq w api_key)))"

section \<open>The page\<close>

text \<open>\<open>text[:300] + "..." if len(text) > 300 else text\<close>\<close>

definition preview :: "str \<Rightarrow> str" where
  "preview text = (if length text > 300 then take 300 text @ lit ''...'' else text)"

text \<open>
  The body of the loop over \<open>enumerate(sources, 1)\<close>, and the loop, which is the same
  in the history and under a fresh answer.
\<close>

fun render_source :: "nat \<times> result_row \<Rightarrow> effect list" where
  "render_source (i, (doc_id, dlg_id, text, similarity)) =
     [source_header i similarity, source_id dlg_id, st_text (preview text), st_divider]"

definition render_sources :: "result_row list \<Rightarrow> effect list" where
  "render_sources rows = concat (map render_source (zip [1 ..< Suc (length rows)] rows))"

definition render_message :: "message \<Rightarrow> effect list" where
  "render_message m =
     st_markdown (content m) #
     (case sources m of
        None \<Rightarrow> []
      | Some srcs \<Rightarrow> if srcs \<noteq> [] then render_sources srcs else [])"

definition render_history :: "message list \<Rightarrow> effect list" where
  "render_history ms = concat (map render_message ms)"

text \<open>The try block around the count of dialogues.\<close>

definition show_dialogue_count :: "connection \<Rightarrow> effect list" where
  "show_dialogue_count conn =
     sql_count #
     (case execute_count conn of
        Inl e \<Rightarrow> [sidebar_warning (exn_text e), sidebar_info]
      | Inr dialogue_count \<Rightarrow> [sidebar_success dialogue_count])"

text \<open>\<open>sep.join(items)\<close> of Python.\<close>

fun str_join :: "str \<Rightarrow> str list \<Rightarrow> str" where
  "str_join sep [] = []"
| "str_join sep [x] = x"
| "str_join sep (x # y # ys) = x @ sep @ str_join sep (y # ys)"

definition build_context :: "result_row list \<Rightarrow> str" where
  "build_context similar_dialogues = str_join [10, 10] (map result_text similar_dialogues)"

definition no_results_response :: str where
  "no_results_response =
     lit ''D'' @ [233] @ lit ''sol'' @ [233] @ lit '', je n'' @ [39] @
     lit ''ai pas trouv'' @ [233] @ lit '' de dialogues pertinents pour r'' @ [233] @
     lit ''pondre '' @ [224] @ lit '' votre question.''"

text \<open>The values of the widgets in one run of the script.\<close>

record widgets =
  top_k :: int
  temperature :: real
  max_tokens :: int
  chat_input :: "str option"
  clear_button :: bool

text \<open>
  The block under \<open>if question := st.chat_input(...)\<close>. The \<open>try\<close> around the call of
  \<open>search_similar_dialogues\<close> has nothing to catch: the callee catches every
  \<open>Exception\<close> itself.
\<close>

definition handle_question ::
  "embedding_model \<Rightarrow> connection \<Rightarrow> groq_client \<Rightarrow> widgets \<Rightarrow> str \<Rightarrow> message list
     \<Rightarrow> effect list \<times> message list" where
  "handle_question model conn client ui question messages =
     (let messages1 = messages @ [\<lparr>role = user, content = question, sources = None\<rparr>];
          (es, similar_dialogues) = search_similar_dialogues question model conn (top_k ui)
      in if similar_dialogues = []
         then
           (st_markdown question # es @ [st_markdown no_results_response],
            messages1 @
              [\<lparr>role = assistant, content = no_results_response, sources = Some []\<rparr>])
         else
           (let context = build_context similar_dialogues;
                (gs, response) =
                  generate_response question context client (temperature ui) (max_tokens ui)
            in (st_markdown question # es @ gs @ [st_markdown response] @
                  render_sources similar_dialogues,
                messages1 @
                  [\<lparr>role = assistant, content = response,
                    sources = Some similar_dialogues\<rparr>])))"

text \<open>
  How a run of the script ends: at its last line, at the \<open>return\<close> after a failed
  initialisation, at \<open>st.rerun()\<close>, or with an exception nobody caught.
\<close>

datatype outcome = completed | returned | rerun | raised exn

definition cannot_initialise :: str where
  "cannot_initialise =
     lit ''Impossible d'' @ [39] @ lit ''initialiser le syst'' @ [232] @ lit ''me. V'' @
     [233] @ lit ''rifiez votre configuration.''"

text \<open>
  One run of \<open>main\<close>, from the session state before it (\<open>None\<close>: no \<open>messages\<close> key
  yet) to the effects, the outcome and the session state after it.
\<close>

definition main ::
  "world \<Rightarrow> widgets \<Rightarrow> message list option
     \<Rightarrow> effect list \<times> outcome \<times> message list option" where
  "main w ui session =
     (case load_embedding_model w of
        Inl e \<Rightarrow> ([], raised e, session)
      | Inr model \<Rightarrow>
          (let (es_conn, conn) = get_db_connection w;
               (es_client, client) = get_groq_client w
           in case (conn, client) of
                (Some conn', Some client') \<Rightarrow>
                  (let es_count = show_dialogue_count conn';
                       messages = (case session of None \<Rightarrow> [] | Some ms \<Rightarrow> ms);
                       es_history = render_history messages;
                       (es_question, messages') =
                         (case chat_input ui of
                            None \<Rightarrow> ([], messages)
                          | Some question \<Rightarrow>
                              if question = [] then ([], messages)
                              else handle_question model conn' client' ui question messages);
                       es = es_conn @ es_client @ es_count @ es_history @ es_question
                   in if messages' \<noteq> [] \<and> clear_button ui
                      then (es, rerun, Some [])
                      else (es, completed, Some messages'))
              | _ \<Rightarrow>
                  (es_conn @ es_client @ [st_error cannot_initialise],
                   returned, session)))"

text \<open>A session: the script run once per interaction, from a fresh session state.\<close>

fun run_session :: "(world \<times> widgets) list \<Rightarrow> message list option \<Rightarrow> message list option" where
  "run_session [] session = session"
| "run_session ((w, ui) # runs) session = run_session runs (snd (snd (main w ui session)))"

definition transcript :: "message list option \<Rightarrow> message list" where
  "transcript session = (case session of None \<Rightarrow> [] | Some ms \<Rightarrow> ms)"

section \<open>A run that is stopped\<close>

text \<open>
  The calls of Streamlit, as opposed to the requests to the collaborators.
\<close>

fun st_call :: "effect \<Rightarrow> bool" where
  "st_call (encode_request q) = False"
| "st_call (sql_search v k) = False"
| "st_call sql_count = False"
| "st_call (groq_request p t n) = False"
| "st_call e = True"

text \<open>
  When a rerun or a stop is requested while the script runs (the user touches a widget),
  the next \<open>st.*\<close> call raises a control exception of Streamlit. That exception derives
  from \<open>BaseException\<close>, so no \<open>except Exception\<close> of the script catches it, and the
  \<open>st.*\<close> calls of the question block (lines 203, 217, 225, 230 to 233, and 80 in the
  callee) are reached between the append of the question at line 199 and the append of
  the answer at line 236. The run ends at that call: the effects before it have happened,
  the question stays in the session state, and line 236 is not reached.

  \<open>n\<close> is the position, among the effects of the question block, of the \<open>st.*\<close> call
  at which the run is stopped; \<open>None\<close> says that the block has no \<open>st.*\<close> call there.
\<close>

definition stopped_question ::
  "nat \<Rightarrow> embedding_model \<Rightarrow> connection \<Rightarrow> groq_client \<Rightarrow> widgets \<Rightarrow> str \<Rightarrow> message list
     \<Rightarrow> (effect list \<times> message list) option" where
  "stopped_question n model conn client ui question messages =
     (let es = fst (handle_question model conn client ui question messages)
      in if n < length es \<and> st_call (es ! n)
         then Some (take n es,
                    messages @ [\<lparr>role = user, content = question, sources = None\<rparr>])
         else None)"

text \<open>
  One run of \<open>main\<close> that is stopped in the question block: the effects and the session
  state it leaves, or \<open>None\<close> when the run does not get to such a call.
\<close>

definition main_stopped ::
  "world \<Rightarrow> widgets \<Rightarrow> nat \<Rightarrow> message list option
     \<Rightarrow> (effect list \<times> message list option) option" where
  "main_stopped w ui n session =
     (case load_embedding_model w of
        Inl e \<Rightarrow> None
      | Inr model \<Rightarrow>
          (let (es_conn, conn) = get_db_connection w;
               (es_client, client) = get_groq_client w
           in case (conn, client, chat_input ui) of
                (Some conn', Some client', Some question) \<Rightarrow>
                  if question = [] then None
                  else
                    (case stopped_question n model conn' client' ui question
                            (transcript session) of
                       None \<Rightarrow> None
                     | Some (es_question, messages') \<Rightarrow>
                         Some (es_conn @ es_client @ show_dialogue_count conn' @
                                 render_history (transcript session) @ es_question,
                               Some messages'))
              | _ \<Rightarrow> None))"

section \<open>The specification's wording of the context\<close>

text \<open>
  The contents in result order, with one blank line (two line feeds) between
  consecutive entries: the first content, then every further content behind a blank
  line.
\<close>

definition joined_by_blank_lines :: "str list \<Rightarrow> str" where
  "joined_by_blank_lines contents =
     (case contents of
        [] \<Rightarrow> []
      | c # cs \<Rightarrow> c @ concat (map (\<lambda>x. [10, 10] @ x) cs))"

text \<open>
  The shape of a transcript of whole exchanges: a question without sources, then an
  answer with sources, and so on.
\<close>

fun exchanges :: "message list \<Rightarrow> bool" where
  "exchanges [] = True"
| "exchanges [m] = False"
| "exchanges (q # a # ms) =
     (role q = user \<and> sources q = None \<and> role a = assistant \<and> sources a \<noteq> None \<and>
      exchanges ms)"

section \<open>Example stores, models and clients\<close>

text \<open>
  Three stored dialogues with embeddings of dimension two, and a model that embeds
  every query as the unit vector \<open>(1, 0)\<close>: the similarities are 0, 1 and -1.
\<close>

definition unit_model :: embedding_model where
  "unit_model query = Inr [1, 0]"

definition failing_model :: embedding_model where
  "failing_model query = Inl (Exception (lit ''out of memory''))"

definition row_across :: dialogue_row where
  "row_across = \<lparr>row_id = 1, dialogue_id = lit ''d1'', contenu = lit ''A'', embedding = [0, 1]\<rparr>"

definition row_along :: dialogue_row where
  "row_along = \<lparr>row_id = 2, dialogue_id = lit ''d2'', contenu = lit ''B'', embedding = [1, 0]\<rparr>"

definition row_opposite :: dialogue_row where
  "row_opposite =
     \<lparr>row_id = 3, dialogue_id = lit ''d3'', contenu = lit ''C'', embedding = [- 1, 0]\<rparr>"

definition example_conn :: connection where
  "example_conn = \<lparr>fault = None, dialogues = [row_across, row_along, row_opposite]\<rparr>"

definition opposite_conn :: connection where
  "opposite_conn = \<lparr>fault = None, dialogues = [row_opposite]\<rparr>"

definition empty_conn :: connection where
  "empty_conn = \<lparr>fault = None, dialogues = []\<rparr>"

definition closed_conn :: connection where
  "closed_conn =
     \<lparr>fault = Some (Exception (lit ''the connection is closed'')),
      dialogues = [row_across]\<rparr>"

definition answering_client :: groq_client where
  "answering_client prompt temp limit = Inr [lit ''Une panne.'']"

definition limited_client :: groq_client where
  "limited_client prompt temp limit = Inl (Exception (lit ''rate limit''))"

definition asking :: widgets where
  "asking =
     \<lparr>top_k = 2, temperature = 7 / 10, max_tokens = 500,
      chat_input = Some (lit ''Quoi ?''), clear_button = False\<rparr>"

definition clearing :: widgets where
  "clearing =
     \<lparr>top_k = 2, temperature = 7 / 10, max_tokens = 500,
      chat_input = None, clear_button = True\<rparr>"

definition example_environ :: "str \<rightharpoonup> str" where
  "example_environ = [lit ''GROQ_API_KEY'' \<mapsto> lit ''gsk'']"

definition connect_example :: "str \<Rightarrow> str \<Rightarrow> str \<Rightarrow> str \<Rightarrow> str \<Rightarrow> exn + connection" where
  "connect_example host port dbname usr password = Inr example_conn"

definition connect_closed :: "str \<Rightarrow> str \<Rightarrow> str \<Rightarrow> str \<Rightarrow> str \<Rightarrow> exn + connection" where
  "connect_closed host port dbname usr password = Inr closed_conn"

definition groq_answering :: "str \<Rightarrow> groq_client" where
  "groq_answering api_key = answering_client"

definition groq_limited :: "str \<Rightarrow> groq_client" where
  "groq_limited api_key = limited_client"

definition example_world :: world where
  "example_world =
     \<lparr>environ = example_environ, SentenceTransformer = Inr unit_model,
      psycopg_connect = connect_example, Groq = groq_answering\<rparr>"

definition keyless_world :: world where
  "keyless_world = example_world\<lparr>environ := Map.empty\<rparr>"

definition failing_world :: world where
  "failing_world = example_world\<lparr>SentenceTransformer := Inr failing_model\<rparr>"

definition closed_world :: world where
  "closed_world = example_world\<lparr>psycopg_connect := connect_closed\<rparr>"

definition limited_world :: world where
  "limited_world = example_world\<lparr>Groq := groq_limited\<rparr>"

section \<open>Cosine similarity lies between -1 and 1\<close>

lemma dot_Nil [simp]: "dot [] b = 0" "dot a [] = 0"
  by (simp_all add: dot_def)

lemma dot_Cons [simp]: "dot (x # a) (y # b) = x * y + dot a b"
  by (simp add: dot_def)

lemma dot_self_nonneg: "0 \<le> dot a a"
  by (induction a) simp_all

lemma cauchy_step:
  fixes x y s A B :: real
  assumes "s\<^sup>2 \<le> A * B" "0 \<le> A" "0 \<le> B"
  shows "(x * y + s)\<^sup>2 \<le> (x * x + A) * (y * y + B)"
proof -
  have "\<bar>s\<bar> \<le> sqrt A * sqrt B"
    using assms by (metis real_sqrt_abs real_sqrt_le_iff real_sqrt_mult)
  have 1: "2 * (x * y * s) \<le> 2 * (\<bar>x\<bar> * sqrt B) * (\<bar>y\<bar> * sqrt A)"
  proof -
    have "x * y * s \<le> \<bar>x * y * s\<bar>" by simp
    also have "\<dots> = \<bar>x\<bar> * \<bar>y\<bar> * \<bar>s\<bar>" by (simp add: abs_mult)
    also have "\<dots> \<le> \<bar>x\<bar> * \<bar>y\<bar> * (sqrt A * sqrt B)"
      using \<open>\<bar>s\<bar> \<le> sqrt A * sqrt B\<close> by (simp add: mult_left_mono)
    finally show ?thesis by (simp add: algebra_simps)
  qed
  have 2: "2 * (\<bar>x\<bar> * sqrt B) * (\<bar>y\<bar> * sqrt A) \<le> (\<bar>x\<bar> * sqrt B)\<^sup>2 + (\<bar>y\<bar> * sqrt A)\<^sup>2"
    using sum_squares_bound [of "\<bar>x\<bar> * sqrt B" "\<bar>y\<bar> * sqrt A"] by simp
  have 3: "(\<bar>x\<bar> * sqrt B)\<^sup>2 + (\<bar>y\<bar> * sqrt A)\<^sup>2 = x\<^sup>2 * B + y\<^sup>2 * A"
    using assms by (simp add: power_mult_distrib)
  have 4: "x\<^sup>2 * B + y\<^sup>2 * A = x * x * B + y * y * A"
    by (simp add: power2_eq_square)
  have "(x * y + s)\<^sup>2 = x * x * (y * y) + 2 * (x * y * s) + s\<^sup>2"
    by (simp add: power2_eq_square algebra_simps)
  also have "\<dots> \<le> x * x * (y * y) + (x * x * B + y * y * A) + A * B"
    using 1 2 3 4 assms(1) by linarith
  also have "\<dots> = (x * x + A) * (y * y + B)"
    by (simp add: algebra_simps)
  finally show ?thesis .
qed

lemma cauchy_schwarz_sq:
  "length a = length b \<Longrightarrow> (dot a b)\<^sup>2 \<le> dot a a * dot b b"
proof (induction a b rule: list_induct2)
  case Nil
  then show ?case by simp
next
  case (Cons x xs y ys)
  then show ?case
    using cauchy_step [of "dot xs ys" "dot xs xs" "dot ys ys" x y]
    by (simp add: dot_self_nonneg)
qed

lemma cauchy_schwarz:
  assumes "length a = length b"
  shows "\<bar>dot a b\<bar> \<le> l2_norm a * l2_norm b"
proof -
  have "sqrt ((dot a b)\<^sup>2) \<le> sqrt (dot a a * dot b b)"
    using cauchy_schwarz_sq [OF assms] by (simp only: real_sqrt_le_iff)
  then show ?thesis
    by (simp add: l2_norm_def real_sqrt_mult)
qed

lemma similarity_range:
  assumes "length a = length b" "l2_norm a \<noteq> 0" "l2_norm b \<noteq> 0"
  shows "- 1 \<le> 1 - cosine_distance a b \<and> 1 - cosine_distance a b \<le> 1"
proof -
  have na: "0 < l2_norm a" and nb: "0 < l2_norm b"
    using assms(2,3) by (simp_all add: l2_norm_def dot_self_nonneg less_le)
  then have pos: "0 < l2_norm a * l2_norm b" by simp
  have cs: "dot a b \<le> l2_norm a * l2_norm b" "- (l2_norm a * l2_norm b) \<le> dot a b"
    using cauchy_schwarz [OF assms(1)] by (simp_all add: abs_le_iff) 
  have "dot a b / (l2_norm a * l2_norm b) \<le> 1"
    using cs(1) pos by (simp only: pos_divide_le_eq mult_1)
  moreover have "- 1 \<le> dot a b / (l2_norm a * l2_norm b)"
    using cs(2) pos by (simp only: pos_le_divide_eq mult_minus1)
  ultimately show ?thesis by (simp add: cosine_distance_def)
qed

section \<open>Lemmas about one run of the script\<close>

lemma search_cases:
  "search_similar_dialogues question model conn k =
     (case model question of
        Inl e \<Rightarrow>
          ([encode_request question,
            st_error (search_error (exn_text e))], [])
      | Inr v \<Rightarrow>
          (case execute_search conn v k of
             Inl e \<Rightarrow>
               ([encode_request question, sql_search v k,
                 st_error (search_error (exn_text e))], [])
           | Inr results \<Rightarrow> ([encode_request question, sql_search v k], results)))"
  by (simp add: search_similar_dialogues_def search_body_def split: sum.splits)

lemma search_sends_no_groq_request:
  "groq_request p t n \<notin> set (fst (search_similar_dialogues question model conn k))"
  by (simp add: search_cases split: sum.splits)

lemma handle_question_no_results:
  assumes "search_similar_dialogues question model conn (top_k ui) = (es, [])"
  shows "handle_question model conn client ui question messages =
           (st_markdown question # es @ [st_markdown no_results_response],
            messages @
              [\<lparr>role = user, content = question, sources = None\<rparr>,
               \<lparr>role = assistant, content = no_results_response, sources = Some []\<rparr>])"
  using assms by (simp add: handle_question_def)

lemma handle_question_results:
  assumes "search_similar_dialogues question model conn (top_k ui) = (es, similar)"
      and "similar \<noteq> []"
  shows "handle_question model conn client ui question messages =
           (st_markdown question # es @
              fst (generate_response question (build_context similar) client
                     (temperature ui) (max_tokens ui)) @
              [st_markdown (snd (generate_response question (build_context similar) client
                     (temperature ui) (max_tokens ui)))] @
              render_sources similar,
            messages @
              [\<lparr>role = user, content = question, sources = None\<rparr>,
               \<lparr>role = assistant,
                content = snd (generate_response question (build_context similar) client
                     (temperature ui) (max_tokens ui)),
                sources = Some similar\<rparr>])"
  using assms by (simp add: handle_question_def case_prod_unfold Let_def)

lemma handle_question_appends:
  "\<exists>response srcs.
     snd (handle_question model conn client ui question messages) =
       messages @
         [\<lparr>role = user, content = question, sources = None\<rparr>,
          \<lparr>role = assistant, content = response, sources = Some srcs\<rparr>]"
proof (cases "search_similar_dialogues question model conn (top_k ui)")
  case (Pair es similar)
  show ?thesis
  proof (cases "similar = []")
    case True
    with Pair show ?thesis by (simp add: handle_question_no_results)
  next
    case False
    with Pair show ?thesis by (simp add: handle_question_results)
  qed
qed

lemma str_join_joined: "str_join [10, 10] contents = joined_by_blank_lines contents"
  by (induction "[10::nat, 10]" contents rule: str_join.induct)
     (simp_all add: joined_by_blank_lines_def)

lemma main_serving:
  assumes "load_embedding_model w = Inr model"
      and "get_db_connection w = (es_conn, Some conn)"
      and "get_groq_client w = (es_client, Some client)"
  shows "main w ui session =
     (let messages = transcript session;
          (es_question, messages') =
             (case chat_input ui of
                None \<Rightarrow> ([], messages)
              | Some question \<Rightarrow>
                  if question = [] then ([], messages)
                  else handle_question model conn client ui question messages);
          es = es_conn @ es_client @ show_dialogue_count conn @ render_history messages @
                 es_question
      in if messages' \<noteq> [] \<and> clear_button ui
         then (es, rerun, Some [])
         else (es, completed, Some messages'))"
  using assms by (simp add: main_def transcript_def)

lemma main_refusing:
  assumes "load_embedding_model w = Inr model"
      and "get_db_connection w = (es_conn, conn)"
      and "get_groq_client w = (es_client, client)"
      and "conn = None \<or> client = None"
  shows "main w ui session =
     (es_conn @ es_client @ [st_error cannot_initialise], returned, session)"
  using assms by (auto simp add: main_def split: option.splits)

lemma main_raising:
  assumes "load_embedding_model w = Inl e"
  shows "main w ui session = ([], raised e, session)"
  using assms by (simp add: main_def)

lemma exchanges_append:
  "exchanges ms \<Longrightarrow> exchanges ns \<Longrightarrow> exchanges (ms @ ns)"
  by (induction ms rule: exchanges.induct) simp_all

lemma main_keeps_exchanges:
  assumes "exchanges (transcript session)"
  shows "exchanges (transcript (snd (snd (main w ui session))))"
proof (cases "load_embedding_model w")
  case (Inl e)
  then show ?thesis using assms by (simp add: main_raising)
next
  case (Inr model)
  obtain es_conn conn where c: "get_db_connection w = (es_conn, conn)" by fastforce
  obtain es_client client where g: "get_groq_client w = (es_client, client)" by fastforce
  show ?thesis
  proof (cases "conn = None \<or> client = None")
    case True
    then show ?thesis using assms main_refusing [OF Inr c g] by simp
  next
    case False
    then obtain conn' client' where s: "conn = Some conn'" "client = Some client'" by auto
    have asked: "exchanges (snd (handle_question model conn' client' ui question (transcript session)))"
      for question
    proof -
      obtain response srcs where
        "snd (handle_question model conn' client' ui question (transcript session)) =
           transcript session @
             [\<lparr>role = user, content = question, sources = None\<rparr>,
              \<lparr>role = assistant, content = response, sources = Some srcs\<rparr>]"
        using handle_question_appends by blast
      then show ?thesis using assms by (simp add: exchanges_append)
    qed
    show ?thesis
      using assms asked main_serving [OF Inr c [unfolded s] g [unfolded s], of ui session]
      by (auto simp add: Let_def transcript_def case_prod_unfold split: option.splits)
  qed
qed

lemma run_session_exchanges:
  "exchanges (transcript session) \<Longrightarrow> exchanges (transcript (run_session runs session))"
  by (induction runs arbitrary: session) (auto simp add: main_keeps_exchanges)

lemma exchanges_even: "exchanges ms \<Longrightarrow> even (length ms)"
  by (induction ms rule: exchanges.induct) simp_all

lemma exchanges_roles:
  "exchanges ms \<Longrightarrow> i < length ms \<Longrightarrow> role (ms ! i) = (if even i then user else assistant)"
proof (induction ms arbitrary: i rule: exchanges.induct)
  case 1
  then show ?case by simp
next
  case (2 m)
  then show ?case by simp
next
  case (3 q a ms)
  show ?case
  proof (cases i)
    case 0
    with 3 show ?thesis by simp
  next
    case (Suc j)
    show ?thesis
    proof (cases j)
      case 0
      with Suc 3 show ?thesis by simp
    next
      case (Suc k)
      with \<open>i = Suc j\<close> 3 show ?thesis by simp
    qed
  qed
qed

lemma exchanges_sources:
  "exchanges ms \<Longrightarrow> m \<in> set ms \<Longrightarrow> sources m \<noteq> None \<Longrightarrow> role m = assistant"
  by (induction ms rule: exchanges.induct) auto

lemma descending_take_sort:
  "sorted_wrt (\<lambda>a b. b \<le> a)
     (map result_similarity (take n (sort_key (\<lambda>row. - result_similarity row) rows)))"
proof -
  have "sorted (map (\<lambda>row. - result_similarity row)
                 (sort_key (\<lambda>row. - result_similarity row) rows))"
    by (rule sorted_sort_key)
  then have "sorted_wrt (\<lambda>a b. b \<le> a)
               (map result_similarity (sort_key (\<lambda>row. - result_similarity row) rows))"
    by (simp add: sorted_wrt_map)
  then show ?thesis
    by (simp add: take_map [symmetric])
qed

section \<open>The claims\<close>

lemma example_search:
  "search_similar_dialogues q unit_model example_conn 2 =
     ([encode_request q, sql_search [1, 0] 2],
      [(2, lit ''d2'', lit ''B'', 1), (1, lit ''d1'', lit ''A'', 0)])"
  by (simp add: search_similar_dialogues_def search_body_def unit_model_def execute_search_def
      example_conn_def row_across_def row_along_def row_opposite_def select_row_def
      cosine_distance_def l2_norm_def dot_def)

lemma example_resources:
  "load_embedding_model example_world = Inr unit_model"
  "get_db_connection example_world = ([], Some example_conn)"
  "get_groq_client example_world = ([], Some answering_client)"
  by (simp_all add: load_embedding_model_def get_db_connection_def get_groq_client_def
      example_world_def example_environ_def connect_example_def groq_answering_def)

text \<open>
  C1. When the search returns no result, the question block sends no request to the
  generation provider, shows the fixed no-results message, and appends the question and
  an answer that carries that message and an empty list of sources.
\<close>

theorem no_results_skips_generation:
  assumes "search_similar_dialogues question model conn (top_k ui) = (es, [])"
  shows "handle_question model conn client ui question messages =
           (st_markdown question # es @ [st_markdown no_results_response],
            messages @
              [\<lparr>role = user, content = question, sources = None\<rparr>,
               \<lparr>role = assistant, content = no_results_response, sources = Some []\<rparr>]) \<and>
         groq_request p t n \<notin>
           set (fst (handle_question model conn client ui question messages))"
proof -
  have "groq_request p t n \<notin> set es"
    using search_sends_no_groq_request [of p t n question model conn "top_k ui"] assms
    by simp
  then show ?thesis
    by (simp add: handle_question_no_results [OF assms])
qed

theorem no_results_skips_generation_witness:
  "search_similar_dialogues (lit ''Quoi ?'') unit_model empty_conn (top_k asking) =
     ([encode_request (lit ''Quoi ?''), sql_search [1, 0] 2], []) \<and>
   handle_question unit_model empty_conn answering_client asking (lit ''Quoi ?'') [] =
     ([st_markdown (lit ''Quoi ?''), encode_request (lit ''Quoi ?''), sql_search [1, 0] 2,
       st_markdown no_results_response],
      [\<lparr>role = user, content = lit ''Quoi ?'', sources = None\<rparr>,
       \<lparr>role = assistant, content = no_results_response, sources = Some []\<rparr>])"
proof -
  have h: "search_similar_dialogues (lit ''Quoi ?'') unit_model empty_conn (top_k asking) =
     ([encode_request (lit ''Quoi ?''), sql_search [1, 0] 2], [])"
    by (simp add: search_cases unit_model_def execute_search_def empty_conn_def asking_def)
  show ?thesis
    using h no_results_skips_generation [OF h, of answering_client "[]"] by simp
qed

text \<open>
  C3. When the search returns results, the context is the contents of the results in
  result order with one blank line between consecutive entries, and the request sent to
  the provider is built from that context; for the contents A and B the context is
  A, two line feeds, B.
\<close>

theorem context_joins_contents:
  assumes "search_similar_dialogues question model conn (top_k ui) = (es, similar)"
      and "similar \<noteq> []"
  shows "build_context similar = joined_by_blank_lines (map result_text similar) \<and>
         groq_request
           (build_prompt question (joined_by_blank_lines (map result_text similar)))
           (temperature ui) (max_tokens ui)
           \<in> set (fst (handle_question model conn client ui question messages)) \<and>
         build_context [(i, d, lit ''A'', s), (j, e, lit ''B'', t)] =
           lit ''A'' @ [10, 10] @ lit ''B''"
  by (simp add: handle_question_results [OF assms] build_context_def str_join_joined
      generate_response_def Let_def)

theorem context_joins_contents_witness:
  "search_similar_dialogues (lit ''Quoi ?'') unit_model example_conn (top_k asking) =
     ([encode_request (lit ''Quoi ?''), sql_search [1, 0] 2],
      [(2, lit ''d2'', lit ''B'', 1), (1, lit ''d1'', lit ''A'', 0)]) \<and>
   [(2, lit ''d2'', lit ''B'', 1), (1, lit ''d1'', lit ''A'', 0 :: real)] \<noteq> [] \<and>
   build_context [(2, lit ''d2'', lit ''B'', 1), (1, lit ''d1'', lit ''A'', 0)] =
     lit ''B'' @ [10, 10] @ lit ''A''"
proof -
  have h: "search_similar_dialogues (lit ''Quoi ?'') unit_model example_conn (top_k asking) =
     ([encode_request (lit ''Quoi ?''), sql_search [1, 0] 2],
      [(2, lit ''d2'', lit ''B'', 1), (1, lit ''d1'', lit ''A'', 0)])"
    by (simp add: example_search asking_def)
  have n: "[(2::int, lit ''d2'', lit ''B'', 1::real), (1, lit ''d1'', lit ''A'', 0)] \<noteq> []"
    by simp
  show ?thesis
    using h context_joins_contents [OF h n, of answering_client "[]"]
    by (simp add: joined_by_blank_lines_def)
qed

text \<open>
  C4. When the provider call raises, \<open>generate_response\<close> does not raise: it returns
  the text \<open>Erreur lors de la generation:\<close> (with its two accents) followed by the
  text of the exception, and the question block shows that very text with
  \<open>st.markdown\<close> and stores it as the content of the answer like any other answer: no
  \<open>st.error\<close>, no status field.
\<close>

theorem generation_failure_is_answer:
  assumes "search_similar_dialogues question model conn (top_k ui) = (es, similar)"
      and "similar \<noteq> []"
      and "client (build_prompt question (build_context similar))
             (temperature ui) (max_tokens ui) = Inl e"
  shows "generate_response question (build_context similar) client
           (temperature ui) (max_tokens ui) =
           ([groq_request (build_prompt question (build_context similar))
               (temperature ui) (max_tokens ui)],
            lit ''Erreur lors de la g'' @ [233] @ lit ''n'' @ [233] @ lit ''ration: '' @
              exn_text e) \<and>
         handle_question model conn client ui question messages =
           (st_markdown question # es @
              [groq_request (build_prompt question (build_context similar))
                 (temperature ui) (max_tokens ui),
               st_markdown
                 (lit ''Erreur lors de la g'' @ [233] @ lit ''n'' @ [233] @
                  lit ''ration: '' @ exn_text e)] @
              render_sources similar,
            messages @
              [\<lparr>role = user, content = question, sources = None\<rparr>,
               \<lparr>role = assistant,
                content =
                  lit ''Erreur lors de la g'' @ [233] @ lit ''n'' @ [233] @
                  lit ''ration: '' @ exn_text e,
                sources = Some similar\<rparr>])"
  using assms(3)
  by (simp add: handle_question_results [OF assms(1,2)] generate_response_def
      generation_error_def Let_def)

theorem generation_failure_is_answer_witness:
  "search_similar_dialogues (lit ''Quoi ?'') unit_model example_conn (top_k asking) =
     ([encode_request (lit ''Quoi ?''), sql_search [1, 0] 2],
      [(2, lit ''d2'', lit ''B'', 1), (1, lit ''d1'', lit ''A'', 0)]) \<and>
   limited_client
     (build_prompt (lit ''Quoi ?'')
        (build_context [(2, lit ''d2'', lit ''B'', 1), (1, lit ''d1'', lit ''A'', 0)]))
     (temperature asking) (max_tokens asking) = Inl (Exception (lit ''rate limit'')) \<and>
   snd (handle_question unit_model example_conn limited_client asking (lit ''Quoi ?'') []) =
     [\<lparr>role = user, content = lit ''Quoi ?'', sources = None\<rparr>,
      \<lparr>role = assistant,
       content =
         lit ''Erreur lors de la g'' @ [233] @ lit ''n'' @ [233] @
         lit ''ration: rate limit'',
       sources = Some [(2, lit ''d2'', lit ''B'', 1), (1, lit ''d1'', lit ''A'', 0)]\<rparr>]"
proof -
  have h: "search_similar_dialogues (lit ''Quoi ?'') unit_model example_conn (top_k asking) =
     ([encode_request (lit ''Quoi ?''), sql_search [1, 0] 2],
      [(2, lit ''d2'', lit ''B'', 1), (1, lit ''d1'', lit ''A'', 0)])"
    by (simp add: example_search asking_def)
  have n: "[(2::int, lit ''d2'', lit ''B'', 1::real), (1, lit ''d1'', lit ''A'', 0)] \<noteq> []"
    by simp
  have c: "limited_client
     (build_prompt (lit ''Quoi ?'')
        (build_context [(2, lit ''d2'', lit ''B'', 1), (1, lit ''d1'', lit ''A'', 0)]))
     (temperature asking) (max_tokens asking) = Inl (Exception (lit ''rate limit''))"
    by (simp add: limited_client_def)
  show ?thesis
    using h c
      generation_failure_is_answer [where client = limited_client and messages = "[]", OF h n c]
    by simp
qed

text \<open>
  C5. When the statement of the search raises on the store, \<open>search_similar_dialogues\<close>
  reports the error with \<open>st.error\<close> and returns no result, the question block goes on
  to the no-results answer, and the run of the script ends normally with the question
  and that answer in the transcript.
\<close>

theorem search_failure_gives_no_results:
  assumes "model question = Inr v"
      and "execute_search conn v (top_k ui) = Inl e"
      and "load_embedding_model w = Inr model"
      and "get_db_connection w = (es_conn, Some conn)"
      and "get_groq_client w = (es_client, Some client)"
      and "chat_input ui = Some question"
      and "question \<noteq> []"
  shows "search_similar_dialogues question model conn (top_k ui) =
           ([encode_request question, sql_search v (top_k ui),
             st_error (search_error (exn_text e))], []) \<and>
         handle_question model conn client ui question messages =
           ([st_markdown question, encode_request question, sql_search v (top_k ui),
             st_error (search_error (exn_text e)), st_markdown no_results_response],
            messages @
              [\<lparr>role = user, content = question, sources = None\<rparr>,
               \<lparr>role = assistant, content = no_results_response, sources = Some []\<rparr>]) \<and>
         main w ui session =
           (es_conn @ es_client @ show_dialogue_count conn @
              render_history (transcript session) @
              [st_markdown question, encode_request question, sql_search v (top_k ui),
               st_error (search_error (exn_text e)), st_markdown no_results_response],
            if clear_button ui then rerun else completed,
            Some (if clear_button ui then []
                  else transcript session @
                    [\<lparr>role = user, content = question, sources = None\<rparr>,
                     \<lparr>role = assistant, content = no_results_response,
                      sources = Some []\<rparr>]))"
proof -
  have s: "search_similar_dialogues question model conn (top_k ui) =
           ([encode_request question, sql_search v (top_k ui),
             st_error (search_error (exn_text e))], [])"
    using assms(1,2) by (simp add: search_cases)
  have h: "handle_question model conn client ui question ms =
           ([st_markdown question, encode_request question, sql_search v (top_k ui),
             st_error (search_error (exn_text e)), st_markdown no_results_response],
            ms @
              [\<lparr>role = user, content = question, sources = None\<rparr>,
               \<lparr>role = assistant, content = no_results_response, sources = Some []\<rparr>])"
    for ms
    by (simp add: handle_question_no_results [OF s])
  show ?thesis
    using assms(6,7)
    by (simp add: s h main_serving [OF assms(3,4,5)] Let_def)
qed

lemma closed_resources:
  "load_embedding_model closed_world = Inr unit_model"
  "get_db_connection closed_world = ([], Some closed_conn)"
  "get_groq_client closed_world = ([], Some answering_client)"
  by (simp_all add: load_embedding_model_def get_db_connection_def get_groq_client_def
      closed_world_def example_world_def example_environ_def connect_closed_def
      groq_answering_def)

theorem search_failure_gives_no_results_witness:
  "unit_model (lit ''Quoi ?'') = Inr [1, 0] \<and>
   execute_search closed_conn [1, 0] (top_k asking) =
     Inl (Exception (lit ''the connection is closed'')) \<and>
   load_embedding_model closed_world = Inr unit_model \<and>
   get_db_connection closed_world = ([], Some closed_conn) \<and>
   get_groq_client closed_world = ([], Some answering_client) \<and>
   chat_input asking = Some (lit ''Quoi ?'') \<and>
   lit ''Quoi ?'' \<noteq> [] \<and>
   main closed_world asking None =
     ([sql_count, sidebar_warning (lit ''the connection is closed''), sidebar_info,
       st_markdown (lit ''Quoi ?''), encode_request (lit ''Quoi ?''),
       sql_search [1, 0] 2,
       st_error (search_error (lit ''the connection is closed'')),
       st_markdown no_results_response],
      completed,
      Some [\<lparr>role = user, content = lit ''Quoi ?'', sources = None\<rparr>,
            \<lparr>role = assistant, content = no_results_response, sources = Some []\<rparr>])"
proof -
  have m: "unit_model (lit ''Quoi ?'') = Inr [1, 0]"
    by (simp add: unit_model_def)
  have x: "execute_search closed_conn [1, 0] (top_k asking) =
             Inl (Exception (lit ''the connection is closed''))"
    by (simp add: execute_search_def closed_conn_def)
  have q: "chat_input asking = Some (lit ''Quoi ?'')"
    by (simp add: asking_def)
  have n: "lit ''Quoi ?'' \<noteq> []"
    by simp
  have k: "top_k asking = 2" "clear_button asking = False"
    by (simp_all add: asking_def)
  have c: "show_dialogue_count closed_conn =
             [sql_count, sidebar_warning (lit ''the connection is closed''), sidebar_info]"
    by (simp add: show_dialogue_count_def execute_count_def closed_conn_def)
  show ?thesis
    using m x q
      search_failure_gives_no_results
        [where client = answering_client and session = None and messages = "[]",
         OF m x closed_resources q n]
    by (simp add: closed_resources k c transcript_def render_history_def)
qed

text \<open>
  C6, as the code has it. When encoding the question raises, the exception is caught
  inside \<open>search_similar_dialogues\<close> like any other: the model is asked once, the
  error is reported as a search error, the search returns no result, and the question
  block answers with the fixed no-results message.
\<close>

theorem embedding_failure_gives_no_results:
  assumes "model question = Inl e"
  shows "search_similar_dialogues question model conn (top_k ui) =
           ([encode_request question, st_error (search_error (exn_text e))], []) \<and>
         handle_question model conn client ui question messages =
           ([st_markdown question, encode_request question,
             st_error (search_error (exn_text e)), st_markdown no_results_response],
            messages @
              [\<lparr>role = user, content = question, sources = None\<rparr>,
               \<lparr>role = assistant, content = no_results_response, sources = Some []\<rparr>])"
proof -
  have s: "search_similar_dialogues question model conn (top_k ui) =
           ([encode_request question, st_error (search_error (exn_text e))], [])"
    using assms by (simp add: search_cases)
  show ?thesis
    by (simp add: s handle_question_no_results [OF s])
qed

theorem embedding_failure_gives_no_results_witness:
  "failing_model (lit ''Quoi ?'') = Inl (Exception (lit ''out of memory'')) \<and>
   handle_question failing_model example_conn answering_client asking (lit ''Quoi ?'') [] =
     ([st_markdown (lit ''Quoi ?''), encode_request (lit ''Quoi ?''),
       st_error (search_error (lit ''out of memory'')), st_markdown no_results_response],
      [\<lparr>role = user, content = lit ''Quoi ?'', sources = None\<rparr>,
       \<lparr>role = assistant, content = no_results_response, sources = Some []\<rparr>])"
proof -
  have m: "failing_model (lit ''Quoi ?'') = Inl (Exception (lit ''out of memory''))"
    by (simp add: failing_model_def)
  show ?thesis
    using m embedding_failure_gives_no_results
              [where model = failing_model and conn = example_conn
                 and client = answering_client and ui = asking and messages = "[]", OF m]
    by simp
qed

lemma failing_resources:
  "load_embedding_model failing_world = Inr failing_model"
  "get_db_connection failing_world = ([], Some example_conn)"
  "get_groq_client failing_world = ([], Some answering_client)"
  by (simp_all add: load_embedding_model_def get_db_connection_def get_groq_client_def
      failing_world_def example_world_def example_environ_def connect_example_def
      groq_answering_def)

text \<open>
  C6 as stated fails: with a model whose encoding raises, the run of the script
  completes, and the transcript it leaves is the one an ordinary search without results
  leaves.
\<close>

theorem embedding_failure_counterexample:
  "failing_model (lit ''Quoi ?'') = Inl (Exception (lit ''out of memory'')) \<and>
   fst (snd (main failing_world asking None)) = completed \<and>
   snd (snd (main failing_world asking None)) =
     Some [\<lparr>role = user, content = lit ''Quoi ?'', sources = None\<rparr>,
           \<lparr>role = assistant, content = no_results_response, sources = Some []\<rparr>] \<and>
   snd (handle_question failing_model example_conn answering_client asking (lit ''Quoi ?'') []) =
   snd (handle_question unit_model empty_conn answering_client asking (lit ''Quoi ?'') [])"
proof -
  have m: "failing_model q = Inl (Exception (lit ''out of memory''))" for q
    by (simp add: failing_model_def)
  have s: "search_similar_dialogues q failing_model example_conn k =
             ([encode_request q, st_error (search_error (lit ''out of memory''))], [])"
    for q k
    by (simp add: search_cases m)
  have t: "search_similar_dialogues q unit_model empty_conn k =
             (if k < 0
              then [encode_request q, sql_search [1, 0] k,
                    st_error (search_error (lit ''LIMIT must not be negative''))]
              else [encode_request q, sql_search [1, 0] k], [])"
    for q k
    by (simp add: search_cases unit_model_def execute_search_def empty_conn_def)
  have q: "chat_input asking = Some (lit ''Quoi ?'')" "clear_button asking = False"
    by (simp_all add: asking_def)
  show ?thesis
    by (simp add: m main_serving [OF failing_resources] q
        handle_question_no_results [OF s] handle_question_no_results [OF t]
        transcript_def)
qed

text \<open>
  C7. Without \<open>GROQ_API_KEY\<close> in the environment, \<open>get_groq_client\<close> reports that
  the key was not found and returns no client, and a run of the script ends before the
  question block: if the embedding model loads, it reports that the system cannot be
  initialised and returns; the session state is left as it was, and no request goes to
  the embedding model, the store or the provider.
\<close>

theorem missing_api_key_refuses:
  assumes "environ w (lit ''GROQ_API_KEY'') = None"
  shows "get_groq_client w = ([st_error key_not_found], None) \<and>
         main w ui session =
           (case load_embedding_model w of
              Inl e \<Rightarrow> ([], raised e, session)
            | Inr model \<Rightarrow>
                (fst (get_db_connection w) @
                   [st_error key_not_found, st_error cannot_initialise],
                 returned, session))"
proof -
  have g: "get_groq_client w = ([st_error key_not_found], None)"
    using assms by (simp add: get_groq_client_def)
  show ?thesis
  proof (cases "load_embedding_model w")
    case (Inl e)
    then show ?thesis by (simp add: g main_raising)
  next
    case (Inr model)
    have c: "get_db_connection w = (fst (get_db_connection w), snd (get_db_connection w))"
      by simp
    show ?thesis
      using main_refusing [OF Inr c g] by (simp add: g Inr)
  qed
qed

theorem missing_api_key_refuses_witness:
  "environ keyless_world (lit ''GROQ_API_KEY'') = None \<and>
   get_groq_client keyless_world = ([st_error key_not_found], None) \<and>
   main keyless_world asking None =
     ([st_error key_not_found, st_error cannot_initialise], returned, None)"
proof -
  have h: "environ keyless_world (lit ''GROQ_API_KEY'') = None"
    by (simp add: keyless_world_def)
  have l: "load_embedding_model keyless_world = Inr unit_model"
    by (simp add: load_embedding_model_def keyless_world_def example_world_def)
  have c: "get_db_connection keyless_world = ([], Some example_conn)"
    by (simp add: get_db_connection_def keyless_world_def example_world_def
        connect_example_def)
  show ?thesis
    using h missing_api_key_refuses [OF h, of asking None] by (simp add: l c)
qed

text \<open>
  C8. In a run that gets past the initialisation, a click on the clear button leaves a
  transcript of length 0, whatever the transcript was before, the empty one included.
\<close>

theorem clear_empties_transcript:
  assumes "load_embedding_model w = Inr model"
      and "get_db_connection w = (es_conn, Some conn)"
      and "get_groq_client w = (es_client, Some client)"
      and "clear_button ui"
  shows "length (transcript (snd (snd (main w ui session)))) = 0"
  using assms(4)
  by (simp add: main_serving [OF assms(1,2,3)] Let_def transcript_def case_prod_unfold)

theorem clear_empties_transcript_witness:
  "load_embedding_model example_world = Inr unit_model \<and>
   get_db_connection example_world = ([], Some example_conn) \<and>
   get_groq_client example_world = ([], Some answering_client) \<and>
   clear_button clearing \<and>
   length (transcript (snd (snd (main example_world clearing
      (Some [\<lparr>role = user, content = lit ''Quoi ?'', sources = None\<rparr>,
             \<lparr>role = assistant, content = no_results_response, sources = Some []\<rparr>]))))) = 0 \<and>
   length (transcript (snd (snd (main example_world clearing (Some []))))) = 0"
proof -
  have b: "clear_button clearing"
    by (simp add: clearing_def)
  show ?thesis
    using b example_resources
      clear_empties_transcript [OF example_resources b,
        of "Some [\<lparr>role = user, content = lit ''Quoi ?'', sources = None\<rparr>,
             \<lparr>role = assistant, content = no_results_response, sources = Some []\<rparr>]"]
      clear_empties_transcript [OF example_resources b, of "Some []"]
    by simp
qed



text \<open>
  C10, as the code has it. The question block appends the question and then one
  answer, on every branch. So the transcript after any number of runs of the script
  that reach their end, from a fresh session, has even length, has a question at every
  even position and an answer at every odd one, and only answers carry sources.
\<close>

theorem transcript_alternates:
  "even (length (transcript (run_session runs None))) \<and>
   (\<forall>i < length (transcript (run_session runs None)).
      role (transcript (run_session runs None) ! i) = (if even i then user else assistant)) \<and>
   (\<forall>m \<in> set (transcript (run_session runs None)).
      sources m \<noteq> None \<longrightarrow> role m = assistant) \<and>
   (\<exists>response srcs.
      snd (handle_question model conn client ui question messages) =
        messages @
          [\<lparr>role = user, content = question, sources = None\<rparr>,
           \<lparr>role = assistant, content = response, sources = Some srcs\<rparr>])"
proof -
  have "exchanges (transcript None)"
    by (simp add: transcript_def)
  then have e: "exchanges (transcript (run_session runs None))"
    by (rule run_session_exchanges)
  show ?thesis
    using exchanges_even [OF e] exchanges_roles [OF e] exchanges_sources [OF e]
      handle_question_appends [of model conn client ui question messages]
    by blast
qed

lemma example_run:
  "main example_world asking None =
     ([sql_count, sidebar_success 3, st_markdown (lit ''Quoi ?''),
       encode_request (lit ''Quoi ?''), sql_search [1, 0] 2,
       groq_request (build_prompt (lit ''Quoi ?'') (lit ''B'' @ [10, 10] @ lit ''A''))
         (7 / 10) 500,
       st_markdown (lit ''Une panne.''),
       source_header 1 1, source_id (lit ''d2''), st_text (lit ''B''), st_divider,
       source_header 2 0, source_id (lit ''d1''), st_text (lit ''A''), st_divider],
      completed,
      Some [\<lparr>role = user, content = lit ''Quoi ?'', sources = None\<rparr>,
            \<lparr>role = assistant, content = lit ''Une panne.'',
             sources = Some [(2, lit ''d2'', lit ''B'', 1), (1, lit ''d1'', lit ''A'', 0)]\<rparr>])"
proof -
  have s: "search_similar_dialogues (lit ''Quoi ?'') unit_model example_conn (top_k asking) =
     ([encode_request (lit ''Quoi ?''), sql_search [1, 0] 2],
      [(2, lit ''d2'', lit ''B'', 1), (1, lit ''d1'', lit ''A'', 0)])"
    by (simp add: example_search asking_def)
  have n: "[(2::int, lit ''d2'', lit ''B'', 1::real), (1, lit ''d1'', lit ''A'', 0)] \<noteq> []"
    by simp
  have c: "show_dialogue_count example_conn = [sql_count, sidebar_success 3]"
    by (simp add: show_dialogue_count_def execute_count_def example_conn_def)
  have g: "generate_response (lit ''Quoi ?'')
             (build_context [(2, lit ''d2'', lit ''B'', 1), (1, lit ''d1'', lit ''A'', 0)])
             answering_client (temperature asking) (max_tokens asking) =
           ([groq_request (build_prompt (lit ''Quoi ?'') (lit ''B'' @ [10, 10] @ lit ''A''))
              (7 / 10) 500], lit ''Une panne.'')"
    by (simp add: generate_response_def build_context_def answering_client_def asking_def)
  have r: "render_sources [(2, lit ''d2'', lit ''B'', 1), (1, lit ''d1'', lit ''A'', 0)] =
     [source_header 1 1, source_id (lit ''d2''), st_text (lit ''B''), st_divider,
      source_header 2 0, source_id (lit ''d1''), st_text (lit ''A''), st_divider]"
    by (simp add: render_sources_def preview_def upt_rec)
  have q: "chat_input asking = Some (lit ''Quoi ?'')" "clear_button asking = False"
    by (simp_all add: asking_def)
  have h: "handle_question unit_model example_conn answering_client asking (lit ''Quoi ?'') [] =
     ([st_markdown (lit ''Quoi ?''), encode_request (lit ''Quoi ?''), sql_search [1, 0] 2,
       groq_request (build_prompt (lit ''Quoi ?'') (lit ''B'' @ [10, 10] @ lit ''A''))
         (7 / 10) 500,
       st_markdown (lit ''Une panne.''),
       source_header 1 1, source_id (lit ''d2''), st_text (lit ''B''), st_divider,
       source_header 2 0, source_id (lit ''d1''), st_text (lit ''A''), st_divider],
      [\<lparr>role = user, content = lit ''Quoi ?'', sources = None\<rparr>,
       \<lparr>role = assistant, content = lit ''Une panne.'',
        sources = Some [(2, lit ''d2'', lit ''B'', 1), (1, lit ''d1'', lit ''A'', 0)]\<rparr>])"
    using handle_question_results [OF s n, of answering_client "[]", unfolded g r]
    by simp
  show ?thesis
    using h q
    by (simp add: main_serving [OF example_resources] c transcript_def render_history_def)
qed

theorem transcript_alternates_witness:
  "transcript (run_session [(example_world, asking)] None) =
     [\<lparr>role = user, content = lit ''Quoi ?'', sources = None\<rparr>,
      \<lparr>role = assistant, content = lit ''Une panne.'',
       sources = Some [(2, lit ''d2'', lit ''B'', 1), (1, lit ''d1'', lit ''A'', 0)]\<rparr>] \<and>
   even (length (transcript (run_session [(example_world, asking)] None))) \<and>
   (1::nat) < length (transcript (run_session [(example_world, asking)] None)) \<and>
   role (transcript (run_session [(example_world, asking)] None) ! 1) = assistant \<and>
   transcript (run_session [(example_world, asking)] None) ! 1
     \<in> set (transcript (run_session [(example_world, asking)] None)) \<and>
   sources (transcript (run_session [(example_world, asking)] None) ! 1) \<noteq> None"
proof -
  have t: "transcript (run_session [(example_world, asking)] None) =
     [\<lparr>role = user, content = lit ''Quoi ?'', sources = None\<rparr>,
      \<lparr>role = assistant, content = lit ''Une panne.'',
       sources = Some [(2, lit ''d2'', lit ''B'', 1), (1, lit ''d1'', lit ''A'', 0)]\<rparr>]"
    by (simp add: example_run transcript_def)
  have l: "(1::nat) < length (transcript (run_session [(example_world, asking)] None))"
    unfolding t by simp
  have "role (transcript (run_session [(example_world, asking)] None) ! 1) = assistant"
    using transcript_alternates [of "[(example_world, asking)]"] l by auto
  moreover have "even (length (transcript (run_session [(example_world, asking)] None)))"
    using transcript_alternates [of "[(example_world, asking)]"] by blast
  moreover have "transcript (run_session [(example_world, asking)] None) ! 1
      \<in> set (transcript (run_session [(example_world, asking)] None))"
    using l by (rule nth_mem)
  moreover have "sources (transcript (run_session [(example_world, asking)] None) ! 1) \<noteq> None"
    unfolding t by simp
  ultimately show ?thesis
    using t l by blast
qed

lemma execute_search_results:
  assumes "execute_search conn v k = Inr results"
  shows "results = take (nat k)
           (sort_key (\<lambda>row. - result_similarity row) (map (select_row v) (dialogues conn)))"
    and "\<forall>r \<in> set (dialogues conn). length (embedding r) = length v"
  using assms
  by (auto simp add: execute_search_def list_ex_iff split: option.splits if_splits)

text \<open>
  C2, as the code has it. For a positive \<open>top_k\<close>, the search returns at most
  \<open>top_k\<close> rows, sorted by similarity in descending order, and every similarity lies
  between -1 and 1: it is one minus a cosine distance, and nothing in the query or in
  the script maps it to the interval from 0 to 1. Vectors are taken to be non-zero (the
  cosine distance of a zero vector is not a number).
\<close>

theorem search_sorted_limited:
  assumes "0 < k"
      and "\<forall>v. model query = Inr v \<longrightarrow> l2_norm v \<noteq> 0"
      and "\<forall>r \<in> set (dialogues conn). l2_norm (embedding r) \<noteq> 0"
  shows "int (length (snd (search_similar_dialogues query model conn k))) \<le> k \<and>
         sorted_wrt (\<lambda>a b. b \<le> a)
           (map result_similarity (snd (search_similar_dialogues query model conn k))) \<and>
         (\<forall>row \<in> set (snd (search_similar_dialogues query model conn k)).
            - 1 \<le> result_similarity row \<and> result_similarity row \<le> 1)"
proof (cases "model query")
  case (Inl e)
  then show ?thesis using assms(1) by (simp add: search_cases)
next
  case (Inr v)
  show ?thesis
  proof (cases "execute_search conn v k")
    case (Inl e)
    then show ?thesis using Inr assms(1) by (simp add: search_cases)
  next
    case inr: (Inr results)
    have s: "snd (search_similar_dialogues query model conn k) = results"
      using Inr inr by (simp add: search_cases)
    note r = execute_search_results [OF inr]
    have "length results \<le> nat k"
      by (simp add: r(1))
    then have 1: "int (length results) \<le> k"
      using assms(1) by linarith
    have 2: "sorted_wrt (\<lambda>a b. b \<le> a) (map result_similarity results)"
      unfolding r(1) by (rule descending_take_sort)
    have 3: "- 1 \<le> result_similarity row \<and> result_similarity row \<le> 1"
      if "row \<in> set results" for row
    proof -
      have "row \<in> set (map (select_row v) (dialogues conn))"
        using that r(1) by (auto dest: in_set_takeD)
      then obtain d where d: "d \<in> set (dialogues conn)" "row = select_row v d"
        by auto
      have "length (embedding d) = length v" "l2_norm (embedding d) \<noteq> 0" "l2_norm v \<noteq> 0"
        using d(1) r(2) assms(2,3) Inr by auto
      then show ?thesis
        using similarity_range [of "embedding d" v] by (simp add: d(2) select_row_def)
    qed
    show ?thesis
      using 1 2 3 by (simp add: s)
  qed
qed

lemma example_norms:
  "l2_norm [1, 0] = 1" "l2_norm [0, 1] = 1" "l2_norm [- 1, 0] = 1"
  by (simp_all add: l2_norm_def)

theorem search_sorted_limited_witness:
  "(0::int) < 2 \<and>
   unit_model (lit ''Quoi ?'') = Inr [1, 0] \<and> l2_norm [1, 0] \<noteq> 0 \<and>
   dialogues example_conn = [row_across, row_along, row_opposite] \<and>
   l2_norm (embedding row_across) \<noteq> 0 \<and> l2_norm (embedding row_along) \<noteq> 0 \<and>
   l2_norm (embedding row_opposite) \<noteq> 0 \<and>
   snd (search_similar_dialogues (lit ''Quoi ?'') unit_model example_conn 2) =
     [(2, lit ''d2'', lit ''B'', 1), (1, lit ''d1'', lit ''A'', 0)] \<and>
   int (length (snd (search_similar_dialogues (lit ''Quoi ?'') unit_model example_conn 2))) \<le> 2 \<and>
   sorted_wrt (\<lambda>a b. b \<le> a)
     (map result_similarity
        (snd (search_similar_dialogues (lit ''Quoi ?'') unit_model example_conn 2))) \<and>
   (1, lit ''d1'', lit ''A'', 0)
     \<in> set (snd (search_similar_dialogues (lit ''Quoi ?'') unit_model example_conn 2)) \<and>
   - 1 \<le> result_similarity (1, lit ''d1'', lit ''A'', 0) \<and>
   result_similarity (1, lit ''d1'', lit ''A'', 0) \<le> 1"
proof -
  have k: "(0::int) < 2"
    by simp
  have m: "\<forall>v. unit_model (lit ''Quoi ?'') = Inr v \<longrightarrow> l2_norm v \<noteq> 0"
    by (simp add: unit_model_def example_norms)
  have d: "\<forall>r \<in> set (dialogues example_conn). l2_norm (embedding r) \<noteq> 0"
    by (simp add: example_conn_def row_across_def row_along_def row_opposite_def
        example_norms)
  have n: "l2_norm (embedding row_across) \<noteq> 0" "l2_norm (embedding row_along) \<noteq> 0"
    "l2_norm (embedding row_opposite) \<noteq> 0" "l2_norm [1, 0] \<noteq> 0"
    by (simp_all add: row_across_def row_along_def row_opposite_def example_norms)
  have c: "dialogues example_conn = [row_across, row_along, row_opposite]"
    by (simp add: example_conn_def)
  have u: "unit_model (lit ''Quoi ?'') = Inr [1, 0]"
    by (simp add: unit_model_def)
  have s: "snd (search_similar_dialogues (lit ''Quoi ?'') unit_model example_conn 2) =
     [(2, lit ''d2'', lit ''B'', 1), (1, lit ''d1'', lit ''A'', 0)]"
    by (simp add: example_search)
  have e: "(1, lit ''d1'', lit ''A'', 0)
             \<in> set (snd (search_similar_dialogues (lit ''Quoi ?'') unit_model example_conn 2))"
    unfolding s by simp
  show ?thesis
    using search_sorted_limited
            [where k = 2 and model = unit_model and query = "lit ''Quoi ?''"
               and conn = example_conn, OF k m d]
          k n c u s e
    by blast
qed

text \<open>
  C2 as stated fails: for a stored vector opposite to the query vector the search
  returns the similarity -1.
\<close>

theorem similarity_below_zero_counterexample:
  "(0::int) < 1 \<and>
   snd (search_similar_dialogues (lit ''Quoi ?'') unit_model opposite_conn 1) =
     [(3, lit ''d3'', lit ''C'', - 1)] \<and>
   result_similarity (3, lit ''d3'', lit ''C'', - 1) < 0"
  by (simp add: search_cases unit_model_def execute_search_def opposite_conn_def
      row_opposite_def select_row_def cosine_distance_def example_norms dot_def)

lemma example_question:
  "handle_question unit_model example_conn answering_client asking (lit ''Quoi ?'') ms =
     ([st_markdown (lit ''Quoi ?''), encode_request (lit ''Quoi ?''), sql_search [1, 0] 2,
       groq_request (build_prompt (lit ''Quoi ?'') (lit ''B'' @ [10, 10] @ lit ''A''))
         (7 / 10) 500,
       st_markdown (lit ''Une panne.''),
       source_header 1 1, source_id (lit ''d2''), st_text (lit ''B''), st_divider,
       source_header 2 0, source_id (lit ''d1''), st_text (lit ''A''), st_divider],
      ms @
        [\<lparr>role = user, content = lit ''Quoi ?'', sources = None\<rparr>,
         \<lparr>role = assistant, content = lit ''Une panne.'',
          sources = Some [(2, lit ''d2'', lit ''B'', 1), (1, lit ''d1'', lit ''A'', 0)]\<rparr>])"
proof -
  have s: "search_similar_dialogues (lit ''Quoi ?'') unit_model example_conn (top_k asking) =
     ([encode_request (lit ''Quoi ?''), sql_search [1, 0] 2],
      [(2, lit ''d2'', lit ''B'', 1), (1, lit ''d1'', lit ''A'', 0)])"
    by (simp add: example_search asking_def)
  have n: "[(2::int, lit ''d2'', lit ''B'', 1::real), (1, lit ''d1'', lit ''A'', 0)] \<noteq> []"
    by simp
  have g: "generate_response (lit ''Quoi ?'')
             (build_context [(2, lit ''d2'', lit ''B'', 1), (1, lit ''d1'', lit ''A'', 0)])
             answering_client (temperature asking) (max_tokens asking) =
           ([groq_request (build_prompt (lit ''Quoi ?'') (lit ''B'' @ [10, 10] @ lit ''A''))
              (7 / 10) 500], lit ''Une panne.'')"
    by (simp add: generate_response_def build_context_def answering_client_def asking_def)
  have r: "render_sources [(2, lit ''d2'', lit ''B'', 1), (1, lit ''d1'', lit ''A'', 0)] =
     [source_header 1 1, source_id (lit ''d2''), st_text (lit ''B''), st_divider,
      source_header 2 0, source_id (lit ''d1''), st_text (lit ''A''), st_divider]"
    by (simp add: render_sources_def preview_def upt_rec)
  show ?thesis
    using handle_question_results [OF s n, of answering_client ms, unfolded g r]
    by simp
qed

text \<open>
  C10 as stated fails: a run stopped at the first \<open>st.*\<close> call of the question block
  leaves a transcript of the question alone, of odd length, and the next question
  makes it a question, a question and an answer.
\<close>

theorem stopped_run_counterexample:
  "main_stopped example_world asking 0 None =
     Some ([sql_count, sidebar_success 3],
           Some [\<lparr>role = user, content = lit ''Quoi ?'', sources = None\<rparr>]) \<and>
   odd (length (transcript
     (Some [\<lparr>role = user, content = lit ''Quoi ?'', sources = None\<rparr>]))) \<and>
   transcript (snd (snd (main example_world asking
     (Some [\<lparr>role = user, content = lit ''Quoi ?'', sources = None\<rparr>])))) =
     [\<lparr>role = user, content = lit ''Quoi ?'', sources = None\<rparr>,
      \<lparr>role = user, content = lit ''Quoi ?'', sources = None\<rparr>,
      \<lparr>role = assistant, content = lit ''Une panne.'',
       sources = Some [(2, lit ''d2'', lit ''B'', 1), (1, lit ''d1'', lit ''A'', 0)]\<rparr>] \<and>
   role ([\<lparr>role = user, content = lit ''Quoi ?'', sources = None\<rparr>,
          \<lparr>role = user, content = lit ''Quoi ?'', sources = None\<rparr>,
          \<lparr>role = assistant, content = lit ''Une panne.'',
           sources = Some [(2, lit ''d2'', lit ''B'', 1), (1, lit ''d1'', lit ''A'', 0)]\<rparr>]
         ! 1) = user"
proof -
  have q: "chat_input asking = Some (lit ''Quoi ?'')" "clear_button asking = False"
    by (simp_all add: asking_def)
  have c: "show_dialogue_count example_conn = [sql_count, sidebar_success 3]"
    by (simp add: show_dialogue_count_def execute_count_def example_conn_def)
  have sq: "stopped_question 0 unit_model example_conn answering_client asking
              (lit ''Quoi ?'') [] =
            Some ([], [\<lparr>role = user, content = lit ''Quoi ?'', sources = None\<rparr>])"
    unfolding stopped_question_def example_question by simp
  have 1: "main_stopped example_world asking 0 None =
     Some ([sql_count, sidebar_success 3],
           Some [\<lparr>role = user, content = lit ''Quoi ?'', sources = None\<rparr>])"
    using q(1) sq
    by (simp add: main_stopped_def example_resources c transcript_def render_history_def)
  have 2: "transcript (snd (snd (main example_world asking
     (Some [\<lparr>role = user, content = lit ''Quoi ?'', sources = None\<rparr>])))) =
     [\<lparr>role = user, content = lit ''Quoi ?'', sources = None\<rparr>,
      \<lparr>role = user, content = lit ''Quoi ?'', sources = None\<rparr>,
      \<lparr>role = assistant, content = lit ''Une panne.'',
       sources = Some [(2, lit ''d2'', lit ''B'', 1), (1, lit ''d1'', lit ''A'', 0)]\<rparr>]"
    using q example_question [of "[\<lparr>role = user, content = lit ''Quoi ?'', sources = None\<rparr>]"]
    by (simp add: main_serving [OF example_resources] transcript_def)
  show ?thesis
    using 1 2 by (simp add: transcript_def)
qed

end
